theory Spec2Isabelle
  imports
    Main
    "HOL-Library.Word"
    "HOL-Library.Char_ord"
    "HOL-Library.List_Lexorder"
    "HOL-Library.AList"
begin

section \<open>The cache package: data model\<close>

text \<open>
  This theory embeds the cache abstraction of \<^verbatim>\<open>pkg/cache\<close> (the in-process
  backend \<^verbatim>\<open>MemoryCache\<close>, the commands the \<^verbatim>\<open>RedisCache\<close> backend issues, the
  helpers \<^verbatim>\<open>LockKey\<close>, \<^verbatim>\<open>GenerateCacheKey\<close>, \<^verbatim>\<open>parseInt64\<close>, \<^verbatim>\<open>formatInt64\<close>)
  and the rate limiter \<^verbatim>\<open>checkRateLimit\<close> of the middleware.

  Conventions of the embedding.
  \<^item> Go's \<^verbatim>\<open>int64\<close> is \<open>64 word\<close>, read with \<open>sint\<close>; \<open>+\<close> and \<open>-\<close> wrap around.
  \<^item> A \<^verbatim>\<open>time.Duration\<close> is a number of nanoseconds, a \<^verbatim>\<open>time.Time\<close> the number of
    nanoseconds since the zero instant, so that \<^verbatim>\<open>time.Time{}\<close> is \<open>0\<close> and
    \<^verbatim>\<open>t.IsZero()\<close> is \<open>t = 0\<close>. Both are unbounded integers: the saturation of
    \<^verbatim>\<open>Time.Add\<close> at the ends of the representable range is not modelled.
  \<^item> Every operation reads the clock through a parameter \<open>now\<close>; the several
    \<^verbatim>\<open>time.Now()\<close> calls inside one operation are taken at the same instant.
  \<^item> \<^verbatim>\<open>[]byte\<close> and \<^verbatim>\<open>string\<close> are both \<open>string\<close> (a list of bytes).
  \<^item> The Go map \<^verbatim>\<open>map[string]*memoryItem\<close> is an association list with one entry
    per key; its order stands for one iteration order of the map.
  \<^item> The context argument is dropped: the in-process backend never reads it.
  \<^item> An operation takes the cache and returns the updated cache with its results;
    a Go \<^verbatim>\<open>error\<close> result is an \<open>error option\<close> (\<open>None\<close> for \<^verbatim>\<open>nil\<close>) or the left
    summand of \<open>error + 'a\<close>.
\<close>

type_synonym int64 = "64 word"
type_synonym Duration = int
type_synonym Time = int

datatype error =
    ErrKeyNotFound
  | ErrKeyExists
  | ErrInvalidTTL
  | ErrLockFailed
  | ErrConnectionFail
  | ErrSerialization
  | Error string string error  \<comment> \<open>\<^verbatim>\<open>&Error{Operation, Key, Err}\<close>\<close>

record memoryItem =
  item_value :: string
  expiresAt :: Time
  createdAt :: Time

record Config =
  DefaultTTL :: Duration

record MemoryCache =
  data :: "(string \<times> memoryItem) list"
  config :: Config
  hits :: int64
  misses :: int64

subsection \<open>Helpers of the package\<close>

definition LockKey :: "string \<Rightarrow> string" where
  "LockKey resource = ''lock:'' @ resource"

text \<open>
  \<^verbatim>\<open>strconv.FormatInt(value, 10)\<close>: the decimal digits of the magnitude, after a minus
  sign for a negative value.
\<close>

definition digit_char :: "nat \<Rightarrow> char" where
  "digit_char d = ''0123456789'' ! d"

fun digits10 :: "nat \<Rightarrow> string" where
  "digits10 n = (if n < 10 then [digit_char n] else digits10 (n div 10) @ [digit_char (n mod 10)])"

declare digits10.simps [simp del]

definition formatInt64 :: "int64 \<Rightarrow> string" where
  "formatInt64 v =
     (if sint v < 0 then CHR ''-'' # digits10 (nat (- sint v)) else digits10 (nat (sint v)))"

text \<open>
  \<^verbatim>\<open>strconv.ParseInt(str, 10, 64)\<close>: an optional sign, then one or more decimal
  digits, and the value must fit 64 signed bits; \<open>None\<close> stands for its error
  (syntax or range).
\<close>

definition is_digit :: "char \<Rightarrow> bool" where
  "is_digit c = (CHR ''0'' \<le> c \<and> c \<le> CHR ''9'')"

definition digits_value :: "string \<Rightarrow> nat" where
  "digits_value ds = foldl (\<lambda>acc c. 10 * acc + (of_char c - 48)) 0 ds"

definition parseInt64 :: "string \<Rightarrow> int64 option" where
  "parseInt64 str =
     (case str of
        [] \<Rightarrow> None
      | c # rest \<Rightarrow>
          (let neg = (c = CHR ''-'');
               s = (if c = CHR ''+'' \<or> c = CHR ''-'' then rest else str)
           in if s = [] then None
              else if list_ex (\<lambda>d. \<not> is_digit d) s then None
              else (let un = digits_value s
                    in if neg then (if 2 ^ 63 < un then None else Some (word_of_int (- int un)))
                       else (if 2 ^ 63 \<le> un then None else Some (word_of_int (int un))))))"

subsection \<open>The in-process backend\<close>

text \<open>\<^verbatim>\<open>NewMemoryCache\<close>: an empty map and zeroed statistics (logger, stop channel and start time are not modelled).\<close>

definition NewMemoryCache :: "Config \<Rightarrow> MemoryCache" where
  "NewMemoryCache cfg = \<lparr>data = [], config = cfg, hits = 0, misses = 0\<rparr>"

definition isExpired :: "Time \<Rightarrow> memoryItem \<Rightarrow> bool" where
  "isExpired now item = (if expiresAt item = 0 then False else expiresAt item < now)"

definition recordHit :: "MemoryCache \<Rightarrow> MemoryCache" where
  "recordHit m = m\<lparr>hits := hits m + 1\<rparr>"

definition recordMiss :: "MemoryCache \<Rightarrow> MemoryCache" where
  "recordMiss m = m\<lparr>misses := misses m + 1\<rparr>"

text \<open>
  \<open>live now m key\<close> is the item the source's test
  \<^verbatim>\<open>item, exists := m.data[key]; exists && !m.isExpired(item)\<close> lets through.
\<close>

definition live :: "Time \<Rightarrow> MemoryCache \<Rightarrow> string \<Rightarrow> memoryItem option" where
  "live now m key =
     (case map_of (data m) key of
        None \<Rightarrow> None
      | Some item \<Rightarrow> if isExpired now item then None else Some item)"

definition MemoryCache_Get :: "Time \<Rightarrow> MemoryCache \<Rightarrow> string \<Rightarrow> MemoryCache \<times> (error + string)" where
  "MemoryCache_Get now m key =
     (case live now m key of
        None \<Rightarrow> (recordMiss m, Inl ErrKeyNotFound)
      | Some item \<Rightarrow> (recordHit m, Inr (item_value item)))"

definition MemoryCache_Set ::
  "Time \<Rightarrow> MemoryCache \<Rightarrow> string \<Rightarrow> string \<Rightarrow> Duration \<Rightarrow> MemoryCache \<times> error option" where
  "MemoryCache_Set now m key v ttl0 =
     (let ttl = (if ttl0 = 0 then DefaultTTL (config m) else ttl0);
          exp = (if 0 < ttl then now + ttl else 0);
          item = \<lparr>item_value = v, expiresAt = exp, createdAt = now\<rparr>
      in (m\<lparr>data := AList.update key item (data m)\<rparr>, None))"

definition MemoryCache_Delete :: "MemoryCache \<Rightarrow> string \<Rightarrow> MemoryCache \<times> error option" where
  "MemoryCache_Delete m key = (m\<lparr>data := AList.delete key (data m)\<rparr>, None)"

text \<open>
  \<^verbatim>\<open>GetKeys\<close> ranges over the whole map, keeps the keys \<^verbatim>\<open>filepath.Match\<close> accepts
  and sorts them. The matcher is the standard library's; it is the parameter
  \<open>matchf\<close>, standing for the boolean \<^verbatim>\<open>matched\<close> (the source drops the matcher's
  error, on which \<^verbatim>\<open>matched\<close> is false). The source does not read the clock here.
\<close>

definition MemoryCache_GetKeys ::
  "(string \<Rightarrow> string \<Rightarrow> bool) \<Rightarrow> MemoryCache \<Rightarrow> string \<Rightarrow> error + string list" where
  "MemoryCache_GetKeys matchf m pattern =
     Inr (sort (filter (\<lambda>key. matchf pattern key) (map fst (data m))))"

definition MemoryCache_Increment ::
  "Time \<Rightarrow> MemoryCache \<Rightarrow> string \<Rightarrow> int64 \<Rightarrow> Duration \<Rightarrow> MemoryCache \<times> (error + int64)" where
  "MemoryCache_Increment now m key delta ttl0 =
     (let current =
            (case live now m key of
               None \<Rightarrow> 0
             | Some item \<Rightarrow>
                 if 0 < length (item_value item)
                 then (case parseInt64 (item_value item) of Some v \<Rightarrow> v | None \<Rightarrow> 0)
                 else 0);
          newValue = current + delta;
          valueBytes = formatInt64 newValue;
          ttl = (if ttl0 = 0 then DefaultTTL (config m) else ttl0);
          exp = (if 0 < ttl then now + ttl else 0);
          item = \<lparr>item_value = valueBytes, expiresAt = exp, createdAt = now\<rparr>
      in (m\<lparr>data := AList.update key item (data m)\<rparr>, Inr newValue))"

definition MemoryCache_Decrement ::
  "Time \<Rightarrow> MemoryCache \<Rightarrow> string \<Rightarrow> int64 \<Rightarrow> Duration \<Rightarrow> MemoryCache \<times> (error + int64)" where
  "MemoryCache_Decrement now m key delta ttl = MemoryCache_Increment now m key (- delta) ttl"

definition MemoryCache_Lock ::
  "Time \<Rightarrow> MemoryCache \<Rightarrow> string \<Rightarrow> Duration \<Rightarrow> MemoryCache \<times> (error + bool)" where
  "MemoryCache_Lock now m key ttl =
     (let lockKey = LockKey key
      in case live now m lockKey of
           Some item \<Rightarrow> (m, Inr False)
         | None \<Rightarrow>
             (let exp = (if 0 < ttl then now + ttl else 0);
                  item = \<lparr>item_value = ''locked'', expiresAt = exp, createdAt = now\<rparr>
              in (m\<lparr>data := AList.update lockKey item (data m)\<rparr>, Inr True)))"

definition MemoryCache_Unlock :: "MemoryCache \<Rightarrow> string \<Rightarrow> MemoryCache \<times> error option" where
  "MemoryCache_Unlock m key = MemoryCache_Delete m (LockKey key)"

subsection \<open>The networked backend: the commands it issues\<close>

text \<open>
  The Redis server and its client library are outside the repository. The model keeps
  what the repository's code decides: which commands \<^verbatim>\<open>RedisCache\<close> sends, in
  which order, with which arguments.
\<close>

datatype redis_cmd =
    IncrBy string int64
  | Expire string Duration
  | SetCmd string string Duration

definition RedisCache_Increment_pipeline ::
  "Config \<Rightarrow> string \<Rightarrow> int64 \<Rightarrow> Duration \<Rightarrow> redis_cmd list" where
  "RedisCache_Increment_pipeline cfg key delta ttl =
     IncrBy key delta #
     (if 0 < ttl then [Expire key ttl]
      else if ttl = 0 \<and> 0 < DefaultTTL cfg then [Expire key (DefaultTTL cfg)]
      else [])"

definition RedisCache_Set_command :: "Config \<Rightarrow> string \<Rightarrow> string \<Rightarrow> Duration \<Rightarrow> redis_cmd" where
  "RedisCache_Set_command cfg key v ttl0 =
     (let ttl = (if ttl0 = 0 then DefaultTTL cfg else ttl0) in SetCmd key v ttl)"

subsection \<open>Cache key derivation\<close>




section \<open>The rate limiter\<close>

record RateLimitConfig =
  WindowSize :: Duration
  MaxRequests :: int64
  KeyPrefix :: string

record RateLimitInfo =
  Key :: string
  Limit :: int64
  Remaining :: int64
  ResetTime :: Time
  RetryAt :: Time
  InfoWindowSize :: Duration

text \<open>\<^verbatim>\<open>Time.Truncate(d)\<close>: down to a multiple of \<open>d\<close> since the zero instant; unchanged for \<open>d \<le> 0\<close>.\<close>

definition Truncate :: "Time \<Rightarrow> Duration \<Rightarrow> Time" where
  "Truncate t d = (if d \<le> 0 then t else t - t mod d)"

text \<open>
  \<^verbatim>\<open>checkRateLimit\<close> calls the \<^verbatim>\<open>Increment\<close> method of the \<^verbatim>\<open>cache.Client\<close> interface
  it is given: the parameter \<open>incr\<close>, which takes the store and returns the updated
  store with the method's result. The function has no logger and calls nothing else.
\<close>

definition checkRateLimit ::
  "Time \<Rightarrow> ('c \<Rightarrow> string \<Rightarrow> int64 \<Rightarrow> Duration \<Rightarrow> 'c \<times> (error + int64)) \<Rightarrow> 'c \<Rightarrow> string \<Rightarrow>
     RateLimitConfig \<Rightarrow> 'c \<times> RateLimitInfo \<times> bool" where
  "checkRateLimit now incr cache key cfg =
     (let windowStart = Truncate now (WindowSize cfg);
          resetTime = windowStart + WindowSize cfg
      in case incr cache key 1 (WindowSize cfg) of
           (cache', Inl err) \<Rightarrow>
             (cache',
              \<lparr>Key = key, Limit = MaxRequests cfg, Remaining = MaxRequests cfg,
               ResetTime = resetTime, RetryAt = 0, InfoWindowSize = WindowSize cfg\<rparr>,
              True)
         | (cache', Inr current) \<Rightarrow>
             (let remaining0 = MaxRequests cfg - current;
                  remaining = (if sint remaining0 < 0 then 0 else remaining0);
                  info = \<lparr>Key = key, Limit = MaxRequests cfg, Remaining = remaining,
                          ResetTime = resetTime, RetryAt = resetTime,
                          InfoWindowSize = WindowSize cfg\<rparr>;
                  allowed = (sint current \<le> sint (MaxRequests cfg))
              in (cache', info, allowed)))"


section \<open>Basic facts about the store\<close>

lemma live_update_same:
  "live t (m\<lparr>data := AList.update key item (data m)\<rparr>) key =
     (if isExpired t item then None else Some item)"
  by (simp add: live_def update_conv')

lemma map_of_delete_same: "map_of (AList.delete k al) k = None"
  by (simp add: delete_conv')

lemma Set_then_Get_after_ttl:
  "0 < ttl \<Longrightarrow> 0 \<le> now \<Longrightarrow> now + ttl < later \<Longrightarrow>
   snd (MemoryCache_Get later (fst (MemoryCache_Set now m key v ttl)) key) = Inl ErrKeyNotFound"
  by (simp add: MemoryCache_Set_def MemoryCache_Get_def Let_def live_update_same isExpired_def)

section \<open>Decimal counters\<close>














section \<open>Runs of the limiter over the in-process backend\<close>





section \<open>Counter expiry under repeated increments\<close>

text \<open>
  Claim C1, as the claim states it, fails: the expiry of a counter is not fixed by the
  \<^verbatim>\<open>Increment\<close> that creates the key. In the in-process backend a counter created at
  instant 100 with a TTL of 10 expires at 110; a second \<^verbatim>\<open>Increment\<close> at instant 105,
  inside the window, stores a new item that expires at 115. The networked backend
  queues \<^verbatim>\<open>Expire\<close> behind \<^verbatim>\<open>IncrBy\<close> in the same way for every call.
\<close>

theorem Increment_refreshes_expiry:
  "map_option expiresAt (map_of (data (fst
      (MemoryCache_Increment 100 (NewMemoryCache \<lparr>DefaultTTL = 300\<rparr>) ''k'' 1 10))) ''k'') = Some 110
   \<and> MemoryCache_Increment 105
        (fst (MemoryCache_Increment 100 (NewMemoryCache \<lparr>DefaultTTL = 300\<rparr>) ''k'' 1 10)) ''k'' 1 10
      = (\<lparr>data = [(''k'', \<lparr>item_value = ''2'', expiresAt = 115, createdAt = 105\<rparr>)],
          config = \<lparr>DefaultTTL = 300\<rparr>, hits = 0, misses = 0\<rparr>, Inr 2)
   \<and> RedisCache_Increment_pipeline \<lparr>DefaultTTL = 300\<rparr> ''k'' 1 10 = [IncrBy ''k'' 1, Expire ''k'' 10]"
  by (simp add: MemoryCache_Increment_def NewMemoryCache_def Let_def live_def isExpired_def
      parseInt64_def is_digit_def digits_value_def formatInt64_def digits10.simps digit_char_def
      RedisCache_Increment_pipeline_def)

text \<open>
  Claim C1, amended. Every \<^verbatim>\<open>Increment\<close> sets the expiry of the key anew, whether the
  key existed or not. With a positive \<open>ttl\<close> the in-process entry expires at
  \<open>now + ttl\<close> of that call and the networked backend sends \<^verbatim>\<open>IncrBy\<close> followed by
  \<^verbatim>\<open>Expire(key, ttl)\<close>; with \<open>ttl = 0\<close> and a positive default TTL the same holds
  with the default TTL. The expiry of a counter is therefore one TTL after its most
  recent increment.
\<close>

theorem Increment_sets_expiry_each_call:
  "(0 < ttl \<longrightarrow>
      map_option expiresAt (map_of (data (fst (MemoryCache_Increment now m key delta ttl))) key)
        = Some (now + ttl)
    \<and> RedisCache_Increment_pipeline cfg key delta ttl = [IncrBy key delta, Expire key ttl])
 \<and> (0 < DefaultTTL (config m) \<longrightarrow>
      map_option expiresAt (map_of (data (fst (MemoryCache_Increment now m key delta 0))) key)
        = Some (now + DefaultTTL (config m)))
 \<and> (0 < DefaultTTL cfg \<longrightarrow>
      RedisCache_Increment_pipeline cfg key delta 0 = [IncrBy key delta, Expire key (DefaultTTL cfg)])"
  by (simp add: MemoryCache_Increment_def Let_def update_conv' RedisCache_Increment_pipeline_def)

theorem Increment_sets_expiry_each_call_witness:
  "map_option expiresAt (map_of (data (fst (MemoryCache_Increment 105
      \<lparr>data = [(''k'', \<lparr>item_value = ''1'', expiresAt = 110, createdAt = 100\<rparr>)],
       config = \<lparr>DefaultTTL = 300\<rparr>, hits = 0, misses = 0\<rparr> ''k'' 1 10))) ''k'') = Some 115
 \<and> RedisCache_Increment_pipeline \<lparr>DefaultTTL = 300\<rparr> ''k'' 1 10 = [IncrBy ''k'' 1, Expire ''k'' 10]
 \<and> map_option expiresAt (map_of (data (fst (MemoryCache_Increment 105
      \<lparr>data = [(''k'', \<lparr>item_value = ''1'', expiresAt = 110, createdAt = 100\<rparr>)],
       config = \<lparr>DefaultTTL = 300\<rparr>, hits = 0, misses = 0\<rparr> ''k'' 1 0))) ''k'') = Some 405
 \<and> RedisCache_Increment_pipeline \<lparr>DefaultTTL = 300\<rparr> ''k'' 1 0 = [IncrBy ''k'' 1, Expire ''k'' 300]"
  using Increment_sets_expiry_each_call [where ttl = 10 and now = 105
      and m = "\<lparr>data = [(''k'', \<lparr>item_value = ''1'', expiresAt = 110, createdAt = 100\<rparr>)],
       config = \<lparr>DefaultTTL = 300\<rparr>, hits = 0, misses = 0\<rparr>"
      and key = "''k''" and delta = 1 and cfg = "\<lparr>DefaultTTL = 300\<rparr>"]
  by simp

section \<open>The decision of the limiter\<close>




section \<open>The limiter when the store fails\<close>

text \<open>
  Claim C3. When \<^verbatim>\<open>Increment\<close> returns an error the limiter allows the request and
  reports the full quota, as the claim says. The claim's last part, that the error
  reaches an observability sink, is what the source's own comment announces
  (\<^verbatim>\<open>// If increment fails, allow the request but log the error\<close>), but the code does
  not do it: the result below is the same for every error \<open>e\<close>, the store comes back
  as \<^verbatim>\<open>Increment\<close> left it, and \<^verbatim>\<open>checkRateLimit\<close> has no logger to call.
\<close>

theorem checkRateLimit_drops_error:
  "checkRateLimit now (\<lambda>c k d t. (c, Inl e)) cache key cfg =
     (cache,
      \<lparr>Key = key, Limit = MaxRequests cfg, Remaining = MaxRequests cfg,
       ResetTime = Truncate now (WindowSize cfg) + WindowSize cfg, RetryAt = 0,
       InfoWindowSize = WindowSize cfg\<rparr>,
      True)"
  by (simp add: checkRateLimit_def)

section \<open>Reading an expired entry\<close>

text \<open>
  Claim C5. \<^verbatim>\<open>Get\<close> on a key that is not in the map and \<^verbatim>\<open>Get\<close> on a key whose item
  has expired but is still in the map return the same error, \<^verbatim>\<open>ErrKeyNotFound\<close>, and
  leave the cache in the same state (one more miss counted).
\<close>

theorem Get_expired_is_miss:
  assumes "map_of (data m) absent = None"
    and "map_of (data m) stale = Some item"
    and "isExpired now item"
  shows "snd (MemoryCache_Get now m absent) = Inl ErrKeyNotFound
       \<and> snd (MemoryCache_Get now m stale) = Inl ErrKeyNotFound
       \<and> fst (MemoryCache_Get now m stale) = fst (MemoryCache_Get now m absent)"
  using assms by (simp add: MemoryCache_Get_def live_def)

theorem Get_expired_is_miss_witness:
  "snd (MemoryCache_Get 10
      \<lparr>data = [(''k'', \<lparr>item_value = ''v'', expiresAt = 5, createdAt = 4\<rparr>)],
       config = \<lparr>DefaultTTL = 300\<rparr>, hits = 0, misses = 0\<rparr> ''other'') = Inl ErrKeyNotFound
   \<and> snd (MemoryCache_Get 10
      \<lparr>data = [(''k'', \<lparr>item_value = ''v'', expiresAt = 5, createdAt = 4\<rparr>)],
       config = \<lparr>DefaultTTL = 300\<rparr>, hits = 0, misses = 0\<rparr> ''k'') = Inl ErrKeyNotFound"
  using Get_expired_is_miss [of "\<lparr>data = [(''k'', \<lparr>item_value = ''v'', expiresAt = 5, createdAt = 4\<rparr>)],
       config = \<lparr>DefaultTTL = 300\<rparr>, hits = 0, misses = 0\<rparr>" "''other''" "''k''"
       "\<lparr>item_value = ''v'', expiresAt = 5, createdAt = 4\<rparr>" 10]
  by (simp add: isExpired_def)

section \<open>Listing keys\<close>

lemma GetKeys_ignores_expiry:
  assumes "map_of (data m) key = Some item" and "isExpired now item" and "matchf pattern key"
  shows "\<exists>keys. MemoryCache_GetKeys matchf m pattern = Inr keys \<and> key \<in> set keys"
  using assms by (auto simp: MemoryCache_GetKeys_def dest: map_of_SomeD intro: rev_image_eqI)

text \<open>
  Claim C6. The claim asks that \<^verbatim>\<open>GetKeys\<close> list live keys only. Every other read of
  the in-process backend tests \<^verbatim>\<open>isExpired\<close> (here \<^verbatim>\<open>Get\<close> on the same cache answers
  \<^verbatim>\<open>ErrKeyNotFound\<close>), but \<^verbatim>\<open>GetKeys\<close> does not: at instant 10 the entry
  \<^verbatim>\<open>user:1\<close>, expired since instant 5 and not yet swept, is listed whenever the
  pattern matches its key.
\<close>

theorem GetKeys_lists_expired_key:
  "isExpired 10 \<lparr>item_value = ''v'', expiresAt = 5, createdAt = 4\<rparr>
   \<and> snd (MemoryCache_Get 10
        \<lparr>data = [(''user:1'', \<lparr>item_value = ''v'', expiresAt = 5, createdAt = 4\<rparr>)],
         config = \<lparr>DefaultTTL = 300\<rparr>, hits = 0, misses = 0\<rparr> ''user:1'') = Inl ErrKeyNotFound
   \<and> MemoryCache_GetKeys matchf
        \<lparr>data = [(''user:1'', \<lparr>item_value = ''v'', expiresAt = 5, createdAt = 4\<rparr>)],
         config = \<lparr>DefaultTTL = 300\<rparr>, hits = 0, misses = 0\<rparr> ''user:*''
      = Inr (if matchf ''user:*'' ''user:1'' then [''user:1''] else [])"
  by (simp add: MemoryCache_GetKeys_def MemoryCache_Get_def live_def isExpired_def)

section \<open>Cache key derivation is independent of the order of the filters\<close>







section \<open>The lock\<close>

text \<open>
  Claim C8. \<^verbatim>\<open>Lock(key, ttl)\<close> works on the entry \<^verbatim>\<open>lock:<key>\<close> and never waits: it is
  one step. While a live entry is there it returns false and leaves the cache as it
  is. Otherwise it returns true and stores the entry \<^verbatim>\<open>locked\<close>, expiring at
  \<open>now + ttl\<close> for a positive \<open>ttl\<close> (a \<open>ttl\<close> that is not positive stores an entry
  that does not expire). After \<^verbatim>\<open>Unlock(key)\<close> the next \<^verbatim>\<open>Lock\<close> returns true; after
  a lock taken with a positive \<open>ttl\<close>, a \<^verbatim>\<open>Lock\<close> later than \<open>now + ttl\<close> returns true
  and one up to \<open>now + ttl\<close> returns false.
\<close>

theorem Lock_conditional_create:
  "(live now m (LockKey key) = Some held \<longrightarrow> MemoryCache_Lock now m key ttl = (m, Inr False))
 \<and> (live now m (LockKey key) = None \<longrightarrow>
       snd (MemoryCache_Lock now m key ttl) = Inr True
     \<and> map_of (data (fst (MemoryCache_Lock now m key ttl))) (LockKey key)
         = Some \<lparr>item_value = ''locked'', expiresAt = (if 0 < ttl then now + ttl else 0),
                  createdAt = now\<rparr>)
 \<and> LockKey key = ''lock:'' @ key
 \<and> snd (MemoryCache_Lock later (fst (MemoryCache_Unlock m key)) key ttl') = Inr True
 \<and> (live now m (LockKey key) = None \<and> 0 < ttl \<and> 0 \<le> now \<and> now + ttl < later \<longrightarrow>
       snd (MemoryCache_Lock later (fst (MemoryCache_Lock now m key ttl)) key ttl') = Inr True)
 \<and> (live now m (LockKey key) = None \<and> 0 < ttl \<and> 0 \<le> now \<and> later \<le> now + ttl \<longrightarrow>
       snd (MemoryCache_Lock later (fst (MemoryCache_Lock now m key ttl)) key ttl') = Inr False)"
proof -
  have held: "live now m (LockKey key) = Some held \<Longrightarrow> MemoryCache_Lock now m key ttl = (m, Inr False)"
    by (simp add: MemoryCache_Lock_def)
  have free: "live now m (LockKey key) = None \<Longrightarrow>
      MemoryCache_Lock now m key ttl =
        (m\<lparr>data := AList.update (LockKey key)
              \<lparr>item_value = ''locked'', expiresAt = (if 0 < ttl then now + ttl else 0),
               createdAt = now\<rparr> (data m)\<rparr>, Inr True)"
    by (simp add: MemoryCache_Lock_def Let_def)
  have unlocked: "live later (fst (MemoryCache_Unlock m key)) (LockKey key) = None"
    by (simp add: MemoryCache_Unlock_def MemoryCache_Delete_def live_def map_of_delete_same)
  have after_unlock: "snd (MemoryCache_Lock later (fst (MemoryCache_Unlock m key)) key ttl') = Inr True"
    using unlocked by (simp add: MemoryCache_Lock_def Let_def)
  have expired: "live now m (LockKey key) = None \<Longrightarrow> 0 < ttl \<Longrightarrow> 0 \<le> now \<Longrightarrow> now + ttl < later \<Longrightarrow>
      snd (MemoryCache_Lock later (fst (MemoryCache_Lock now m key ttl)) key ttl') = Inr True"
    by (simp add: free MemoryCache_Lock_def Let_def live_update_same isExpired_def)
  have still: "live now m (LockKey key) = None \<Longrightarrow> 0 < ttl \<Longrightarrow> 0 \<le> now \<Longrightarrow> later \<le> now + ttl \<Longrightarrow>
      snd (MemoryCache_Lock later (fst (MemoryCache_Lock now m key ttl)) key ttl') = Inr False"
    by (simp add: free MemoryCache_Lock_def Let_def live_update_same isExpired_def)
  have name: "LockKey key = ''lock:'' @ key"
    by (simp add: LockKey_def)
  show ?thesis
    using held free after_unlock expired still name by (simp add: update_conv')
qed

theorem Lock_conditional_create_witness:
  "snd (MemoryCache_Lock 100 (NewMemoryCache \<lparr>DefaultTTL = 300\<rparr>) ''job'' 10) = Inr True
 \<and> snd (MemoryCache_Lock 105
        (fst (MemoryCache_Lock 100 (NewMemoryCache \<lparr>DefaultTTL = 300\<rparr>) ''job'' 10)) ''job'' 10)
      = Inr False
 \<and> snd (MemoryCache_Lock 111
        (fst (MemoryCache_Lock 100 (NewMemoryCache \<lparr>DefaultTTL = 300\<rparr>) ''job'' 10)) ''job'' 10)
      = Inr True
 \<and> snd (MemoryCache_Lock 105
        (fst (MemoryCache_Unlock
           (fst (MemoryCache_Lock 100 (NewMemoryCache \<lparr>DefaultTTL = 300\<rparr>) ''job'' 10)) ''job''))
        ''job'' 10)
      = Inr True"
proof -
  let ?m = "NewMemoryCache \<lparr>DefaultTTL = 300\<rparr>"
  have free: "live 100 ?m (LockKey ''job'') = None"
    by (simp add: live_def NewMemoryCache_def)
  from Lock_conditional_create [where now = 100 and m = ?m and key = "''job''" and ttl = 10
      and later = 105 and ttl' = 10] free
  have a: "snd (MemoryCache_Lock 100 ?m ''job'' 10) = Inr True"
    and b: "snd (MemoryCache_Lock 105 (fst (MemoryCache_Lock 100 ?m ''job'' 10)) ''job'' 10) = Inr False"
    by simp_all
  from Lock_conditional_create [where now = 100 and m = ?m and key = "''job''" and ttl = 10
      and later = 111 and ttl' = 10] free
  have c: "snd (MemoryCache_Lock 111 (fst (MemoryCache_Lock 100 ?m ''job'' 10)) ''job'' 10) = Inr True"
    by simp
  from Lock_conditional_create [where m = "fst (MemoryCache_Lock 100 ?m ''job'' 10)"
      and key = "''job''" and later = 105 and ttl' = 10]
  have d: "snd (MemoryCache_Lock 105
        (fst (MemoryCache_Unlock (fst (MemoryCache_Lock 100 ?m ''job'' 10)) ''job'')) ''job'' 10)
      = Inr True"
    by simp
  from a b c d show ?thesis by simp
qed

section \<open>The TTL argument of Set\<close>

text \<open>
  Claim C9, as the claim states it, fails: a negative \<open>ttl\<close> is not rejected. The
  in-process \<^verbatim>\<open>Set\<close> computes an expiry only under the guard \<^verbatim>\<open>if ttl > 0\<close>, so a
  negative \<open>ttl\<close> stores the entry with the zero expiry, which never expires, and
  returns \<^verbatim>\<open>nil\<close>. No path of either backend returns \<^verbatim>\<open>ErrInvalidTTL\<close>.
\<close>

theorem Set_negative_ttl_accepted:
  "MemoryCache_Set 100 (NewMemoryCache \<lparr>DefaultTTL = 300\<rparr>) ''k'' ''v'' (- 1)
     = (\<lparr>data = [(''k'', \<lparr>item_value = ''v'', expiresAt = 0, createdAt = 100\<rparr>)],
         config = \<lparr>DefaultTTL = 300\<rparr>, hits = 0, misses = 0\<rparr>, None)"
  by (simp add: MemoryCache_Set_def NewMemoryCache_def Let_def)

text \<open>
  Claim C9, amended. \<^verbatim>\<open>Set\<close> of the in-process backend always succeeds. With
  \<open>ttl = 0\<close> the configured default TTL is applied (the entry expires at
  \<open>now + DefaultTTL\<close> when the default is positive); with a positive \<open>ttl\<close> the entry
  expires at \<open>now + ttl\<close>; with a negative \<open>ttl\<close> the write succeeds and the entry
  does not expire: it is read back at every later instant. The networked backend
  sends the default TTL in place of \<open>0\<close> and any other \<open>ttl\<close>, a negative one
  included, unchanged to its client.
\<close>

theorem Set_ttl_rule:
  "snd (MemoryCache_Set now m key v ttl) = None
 \<and> (ttl = 0 \<and> 0 < DefaultTTL (config m) \<longrightarrow>
      map_of (data (fst (MemoryCache_Set now m key v ttl))) key
        = Some \<lparr>item_value = v, expiresAt = now + DefaultTTL (config m), createdAt = now\<rparr>)
 \<and> (0 < ttl \<longrightarrow>
      map_of (data (fst (MemoryCache_Set now m key v ttl))) key
        = Some \<lparr>item_value = v, expiresAt = now + ttl, createdAt = now\<rparr>)
 \<and> (ttl < 0 \<longrightarrow>
      map_of (data (fst (MemoryCache_Set now m key v ttl))) key
        = Some \<lparr>item_value = v, expiresAt = 0, createdAt = now\<rparr>
    \<and> snd (MemoryCache_Get later (fst (MemoryCache_Set now m key v ttl)) key) = Inr v)
 \<and> RedisCache_Set_command cfg key v 0 = SetCmd key v (DefaultTTL cfg)
 \<and> (ttl \<noteq> 0 \<longrightarrow> RedisCache_Set_command cfg key v ttl = SetCmd key v ttl)"
  by (simp add: MemoryCache_Set_def Let_def update_conv' MemoryCache_Get_def live_def
      isExpired_def RedisCache_Set_command_def)

theorem Set_ttl_rule_witness:
  "map_of (data (fst (MemoryCache_Set 100 (NewMemoryCache \<lparr>DefaultTTL = 300\<rparr>) ''k'' ''v'' 0))) ''k''
     = Some \<lparr>item_value = ''v'', expiresAt = 400, createdAt = 100\<rparr>
 \<and> snd (MemoryCache_Set 100 (NewMemoryCache \<lparr>DefaultTTL = 300\<rparr>) ''k'' ''v'' (- 5)) = None
 \<and> snd (MemoryCache_Get 1000000
        (fst (MemoryCache_Set 100 (NewMemoryCache \<lparr>DefaultTTL = 300\<rparr>) ''k'' ''v'' (- 5))) ''k'')
      = Inr ''v''
 \<and> RedisCache_Set_command \<lparr>DefaultTTL = 300\<rparr> ''k'' ''v'' (- 5) = SetCmd ''k'' ''v'' (- 5)"
  using Set_ttl_rule [where now = 100 and m = "NewMemoryCache \<lparr>DefaultTTL = 300\<rparr>"
      and key = "''k''" and v = "''v''" and ttl = 0]
    Set_ttl_rule [where now = 100 and m = "NewMemoryCache \<lparr>DefaultTTL = 300\<rparr>"
      and key = "''k''" and v = "''v''" and ttl = "- 5" and later = 1000000
      and cfg = "\<lparr>DefaultTTL = 300\<rparr>"]
  by (simp add: NewMemoryCache_def)

section \<open>Increment over a payload that is not a number\<close>

text \<open>
  Claim C10. When the key holds a live entry whose payload \<^verbatim>\<open>parseInt64\<close> rejects,
  \<^verbatim>\<open>Increment\<close> of the in-process backend returns no error: it counts from 0,
  returns \<open>delta\<close> and replaces the payload by the decimal text of \<open>delta\<close>.
\<close>

theorem Increment_unparseable_payload:
  assumes "map_of (data m) key = Some item"
    and "\<not> isExpired now item"
    and "parseInt64 (item_value item) = None"
  shows "snd (MemoryCache_Increment now m key delta ttl) = Inr delta
       \<and> map_option item_value (map_of (data (fst (MemoryCache_Increment now m key delta ttl))) key)
           = Some (formatInt64 delta)"
  using assms by (simp add: MemoryCache_Increment_def live_def Let_def update_conv')

theorem Increment_unparseable_payload_witness:
  "snd (MemoryCache_Increment 10
      \<lparr>data = [(''k'', \<lparr>item_value = ''abc'', expiresAt = 0, createdAt = 1\<rparr>)],
       config = \<lparr>DefaultTTL = 300\<rparr>, hits = 0, misses = 0\<rparr> ''k'' 5 60) = Inr 5
 \<and> map_option item_value (map_of (data (fst (MemoryCache_Increment 10
      \<lparr>data = [(''k'', \<lparr>item_value = ''abc'', expiresAt = 0, createdAt = 1\<rparr>)],
       config = \<lparr>DefaultTTL = 300\<rparr>, hits = 0, misses = 0\<rparr> ''k'' 5 60))) ''k'') = Some ''5''"
  using Increment_unparseable_payload [where m = "\<lparr>data = [(''k'', \<lparr>item_value = ''abc'', expiresAt = 0, createdAt = 1\<rparr>)],
       config = \<lparr>DefaultTTL = 300\<rparr>, hits = 0, misses = 0\<rparr>" and key = "''k''"
      and item = "\<lparr>item_value = ''abc'', expiresAt = 0, createdAt = 1\<rparr>" and now = 10
      and delta = 5 and ttl = 60]
  by (simp add: isExpired_def parseInt64_def is_digit_def formatInt64_def digits10.simps
      digit_char_def)

end
